theory Spec2Isabelle
  imports Main "HOL-Library.Sublist"
begin

section \<open>The home page example of the crawler library\<close>

text \<open>
  The source file \<^verbatim>\<open>home_page_example.py\<close> is a coroutine \<^verbatim>\<open>main\<close> that builds a
  \<^verbatim>\<open>PlaywrightCrawler\<close>, registers one request handler on its router, runs the crawl,
  exports the dataset and reads it back. Every effect is a call into the crawler
  library, whose code is not part of the file. The script is therefore embedded over a
  library that is a parameter: a record of operations on a world \<open>'w\<close> that the library
  owns, each of which either returns a value or raises an exception of type \<open>'e\<close>.
  The script's own state is the world together with the trace of the library calls it
  has made, each with its outcome.
\<close>

subsection \<open>Python values\<close>

text \<open>
  A Python \<^verbatim>\<open>str\<close> is a sequence of code points, and slicing counts code points, so a
  \<^verbatim>\<open>str\<close> is a list of code point numbers. A string literal of the source is written
  \<open>literal ''...''\<close>.
\<close>

type_synonym str = "nat list"

definition literal :: "string \<Rightarrow> str" where
  "literal s = map of_char s"

datatype pyvalue = PyInt int | PyBool bool | PyStr str

text \<open>Keyword arguments of a call, in the order they are written.\<close>

type_synonym kwargs = "(string \<times> pyvalue) list"

text \<open>
  The dictionary the handler builds: its keys are the three literals of the source, its
  values are strings; a Python dictionary keeps insertion order, so it is an association
  list.
\<close>

type_synonym data = "(string \<times> str) list"

text \<open>
  An f-string is the list of its parts: literal text, a formatted \<^verbatim>\<open>str\<close>, or the
  formatted list of dataset items.
\<close>

datatype fragment = Text string | Format_str str | Format_items "data list"

type_synonym message = "fragment list"

record Request =
  url :: str

text \<open>
  The crawling context handed to the handler: the request and the browser page. The page
  is a handle of the library, of type \<open>'p\<close>.
\<close>

record 'p PlaywrightCrawlingContext =
  request :: Request
  page :: 'p

text \<open>The object returned by \<^verbatim>\<open>crawler.get_data()\<close>; the script reads its \<^verbatim>\<open>items\<close>.\<close>

record DatasetItemsListPage =
  items :: "data list"

subsection \<open>Library calls, outcomes and the trace\<close>

text \<open>
  The calls the script makes into the library. A method call on the crawler carries the
  configuration of the crawler object it is made on.
\<close>

datatype external_call =
    New_PlaywrightCrawler kwargs
  | Router_default_handler kwargs
  | Run kwargs "str list"
  | Export_data kwargs str
  | Get_data kwargs
  | Crawler_log_info kwargs message
  | Context_log_info message
  | Enqueue_links
  | Page_title
  | Page_content
  | Push_data data

datatype 'e outcome = Returned | Raised 'e

type_synonym 'e event = "external_call \<times> 'e outcome"

record ('w, 'e) state =
  world :: 'w
  trace :: "'e event list"

text \<open>A library operation acts on the world and returns a value or raises.\<close>

type_synonym ('w, 'e, 'a) external = "'w \<Rightarrow> ('e + 'a) \<times> 'w"

text \<open>A piece of the script acts on the state and returns a value or raises.\<close>

type_synonym ('w, 'e, 'a) action = "('w, 'e) state \<Rightarrow> ('e + 'a) \<times> ('w, 'e) state"

definition start :: "'w \<Rightarrow> ('w, 'e) state" where
  "start w = \<lparr>world = w, trace = []\<rparr>"

definition calls :: "'e event list \<Rightarrow> external_call list" where
  "calls t = map fst t"



fun returned :: "'e event \<Rightarrow> bool" where
  "returned (c, Returned) = True"
| "returned (c, Raised e) = False"

fun pushed :: "external_call \<Rightarrow> data list" where
  "pushed (Push_data d) = [d]"
| "pushed c = []"

text \<open>The records submitted by the calls of a trace, in order.\<close>

definition submitted :: "'e event list \<Rightarrow> data list" where
  "submitted t = concat (map pushed (calls t))"

text \<open>The records the library accepted: those of the submissions that returned.\<close>

fun accepted_by :: "'e event \<Rightarrow> data list" where
  "accepted_by (c, Returned) = pushed c"
| "accepted_by (c, Raised e) = []"

definition accepted :: "'e event list \<Rightarrow> data list" where
  "accepted t = concat (map accepted_by t)"

text \<open>
  \<open>perform c f\<close> makes the library call \<open>f\<close> and records it as \<open>c\<close> with its outcome.
  There is no \<^verbatim>\<open>try\<close> in the source, so a raised exception is the result of the
  script's action.
\<close>

definition perform :: "external_call \<Rightarrow> ('w, 'e, 'a) external \<Rightarrow> ('w, 'e, 'a) action" where
  "perform c f s =
     (case f (world s) of
        (Inl e, w) \<Rightarrow> (Inl e, \<lparr>world = w, trace = trace s @ [(c, Raised e)]\<rparr>)
      | (Inr x, w) \<Rightarrow> (Inr x, \<lparr>world = w, trace = trace s @ [(c, Returned)]\<rparr>))"

text \<open>
  Sequencing of two statements: the second runs on the result of the first; an exception
  of the first ends the coroutine.
\<close>

definition bind :: "('w, 'e, 'a) action \<Rightarrow> ('a \<Rightarrow> ('w, 'e, 'b) action) \<Rightarrow> ('w, 'e, 'b) action" where
  "bind m k s = (case m s of (Inl e, s') \<Rightarrow> (Inl e, s') | (Inr x, s') \<Rightarrow> k x s')"

subsection \<open>The crawler object and the library\<close>

text \<open>A registered handler, as the library calls it: on a context, in the library's world.\<close>

type_synonym ('w, 'e, 'p) handler = "'p PlaywrightCrawlingContext \<Rightarrow> ('w, 'e, unit) external"

text \<open>
  Modelled from the spec: the class \<^verbatim>\<open>PlaywrightCrawler\<close> is not in the source file. The
  crawler object, as far as the script determines it, is the configuration it was
  constructed with and the default handler registered on its router.
\<close>

record ('w, 'e, 'p) crawler =
  configuration :: kwargs
  router :: "('w, 'e, 'p) handler option"

text \<open>
  The library's interface, one field for each call of the source:
  \<^verbatim>\<open>PlaywrightCrawler(...)\<close>, \<^verbatim>\<open>crawler.router.default_handler\<close>, \<^verbatim>\<open>crawler.run\<close>,
  \<^verbatim>\<open>crawler.export_data\<close>, \<^verbatim>\<open>crawler.get_data\<close>, \<^verbatim>\<open>crawler.log.info\<close>,
  \<^verbatim>\<open>context.log.info\<close>, \<^verbatim>\<open>context.enqueue_links\<close>, \<^verbatim>\<open>context.page.title\<close>,
  \<^verbatim>\<open>context.page.content\<close> and \<^verbatim>\<open>context.push_data\<close>.
\<close>

record ('w, 'e, 'p) library =
  PlaywrightCrawler :: "kwargs \<Rightarrow> ('w, 'e, unit) external"
  default_handler :: "('w, 'e, 'p) crawler \<Rightarrow> ('w, 'e, 'p) handler \<Rightarrow> ('w, 'e, unit) external"
  run :: "('w, 'e, 'p) crawler \<Rightarrow> str list \<Rightarrow> ('w, 'e, unit) external"
  export_data :: "('w, 'e, 'p) crawler \<Rightarrow> str \<Rightarrow> ('w, 'e, unit) external"
  get_data :: "('w, 'e, 'p) crawler \<Rightarrow> ('w, 'e, DatasetItemsListPage) external"
  crawler_log_info :: "('w, 'e, 'p) crawler \<Rightarrow> message \<Rightarrow> ('w, 'e, unit) external"
  context_log_info :: "'p PlaywrightCrawlingContext \<Rightarrow> message \<Rightarrow> ('w, 'e, unit) external"
  enqueue_links :: "'p PlaywrightCrawlingContext \<Rightarrow> ('w, 'e, unit) external"
  title :: "'p \<Rightarrow> ('w, 'e, str) external"
  content :: "'p \<Rightarrow> ('w, 'e, str) external"
  push_data :: "'p PlaywrightCrawlingContext \<Rightarrow> data \<Rightarrow> ('w, 'e, unit) external"

subsection \<open>The request handler\<close>

text \<open>The f-string \<^verbatim>\<open>f'Processing {context.request.url} ...'\<close>.\<close>

definition processing :: "'p PlaywrightCrawlingContext \<Rightarrow> message" where
  "processing context = [Text ''Processing '', Format_str (url (request context)), Text '' ...'']"

text \<open>
  \<^verbatim>\<open>request_handler\<close>: the log line, \<^verbatim>\<open>enqueue_links\<close>, then the dictionary literal, whose
  values are evaluated in the order written (the url, the awaited title, the awaited
  content sliced with \<^verbatim>\<open>[:100]\<close>), then \<^verbatim>\<open>push_data\<close>.
\<close>

definition request_handler ::
    "('w, 'e, 'p) library \<Rightarrow> 'p PlaywrightCrawlingContext \<Rightarrow> ('w, 'e, unit) action" where
  "request_handler lib context =
     bind (perform (Context_log_info (processing context))
             (context_log_info lib context (processing context))) (\<lambda>_.
     bind (perform Enqueue_links (enqueue_links lib context)) (\<lambda>_.
     bind (perform Page_title (title lib (page context))) (\<lambda>t.
     bind (perform Page_content (content lib (page context))) (\<lambda>c.
       let data = [(''url'', url (request context)), (''title'', t), (''content'', take 100 c)]
       in perform (Push_data data) (push_data lib context data)))))"

text \<open>
  The handler as the library invokes it during a crawl: in the library's world, with a
  trace of its own. Which invocations run, and how they interleave, is the library's
  business; the script determines the calls of one invocation.
\<close>

definition on_world :: "('p PlaywrightCrawlingContext \<Rightarrow> ('w, 'e, unit) action) \<Rightarrow> ('w, 'e, 'p) handler" where
  "on_world h context w = (case h context (start w) of (r, s) \<Rightarrow> (r, world s))"

subsection \<open>The coroutine main\<close>

definition crawler_options :: kwargs where
  "crawler_options =
     [(''max_requests_per_crawl'', PyInt 5),
      (''headless'', PyBool False),
      (''browser_type'', PyStr (literal ''firefox''))]"

definition start_urls :: "str list" where
  "start_urls = [literal ''https://crawlee.dev'']"

definition results_file :: str where
  "results_file = literal ''results.json''"

text \<open>The f-string \<^verbatim>\<open>f'Extracted data: {data.items}'\<close>.\<close>

definition extracted :: "DatasetItemsListPage \<Rightarrow> message" where
  "extracted data = [Text ''Extracted data: '', Format_items (items data)]"

text \<open>
  \<^verbatim>\<open>main\<close>. The decorator \<^verbatim>\<open>@crawler.router.default_handler\<close> is a call of the router
  with the handler; it leaves the crawler with the handler on its router. The local
  variable \<^verbatim>\<open>crawler\<close> is bound once; the model rebinds it where the object changes.
\<close>

definition main :: "('w, 'e, 'p) library \<Rightarrow> ('w, 'e, unit) action" where
  "main lib =
     bind (perform (New_PlaywrightCrawler crawler_options)
             (PlaywrightCrawler lib crawler_options)) (\<lambda>_.
       let crawler = \<lparr>configuration = crawler_options, router = None\<rparr>;
           handler = on_world (request_handler lib)
       in
     bind (perform (Router_default_handler (configuration crawler))
             (default_handler lib crawler handler)) (\<lambda>_.
       let crawler = crawler\<lparr>router := Some handler\<rparr>
       in
     bind (perform (Run (configuration crawler) start_urls)
             (run lib crawler start_urls)) (\<lambda>_.
     bind (perform (Export_data (configuration crawler) results_file)
             (export_data lib crawler results_file)) (\<lambda>_.
     bind (perform (Get_data (configuration crawler)) (get_data lib crawler)) (\<lambda>data.
       perform (Crawler_log_info (configuration crawler) (extracted data))
         (crawler_log_info lib crawler (extracted data)))))))"

text \<open>The trace of one execution of \<^verbatim>\<open>main\<close>, and of one invocation of the handler.\<close>

definition main_trace :: "('w, 'e, 'p) library \<Rightarrow> 'w \<Rightarrow> 'e event list" where
  "main_trace lib w = trace (snd (main lib (start w)))"

definition handler_trace ::
    "('w, 'e, 'p) library \<Rightarrow> 'p PlaywrightCrawlingContext \<Rightarrow> 'w \<Rightarrow> 'e event list" where
  "handler_trace lib context w = trace (snd (request_handler lib context (start w)))"

text \<open>The first five calls of \<^verbatim>\<open>main\<close>, as the source writes them.\<close>

definition main_steps :: "external_call list" where
  "main_steps =
     [New_PlaywrightCrawler crawler_options,
      Router_default_handler crawler_options,
      Run crawler_options start_urls,
      Export_data crawler_options results_file,
      Get_data crawler_options]"

text \<open>
  The crawler object as \<^verbatim>\<open>main\<close> holds it after the constructor, and after the
  decorator has put the handler on its router.
\<close>

definition new_crawler :: "('w, 'e, 'p) crawler" where
  "new_crawler = \<lparr>configuration = crawler_options, router = None\<rparr>"

definition registered_crawler :: "('w, 'e, 'p) library \<Rightarrow> ('w, 'e, 'p) crawler" where
  "registered_crawler lib =
     \<lparr>configuration = crawler_options, router = Some (on_world (request_handler lib))\<rparr>"

subsection \<open>Reading a trace\<close>

text \<open>The configuration passed by a constructor call.\<close>

fun constructs :: "external_call \<Rightarrow> kwargs list" where
  "constructs (New_PlaywrightCrawler kw) = [kw]"
| "constructs c = []"

text \<open>The configuration of the crawler object a method call is made on.\<close>

fun receiver :: "external_call \<Rightarrow> kwargs list" where
  "receiver (Router_default_handler kw) = [kw]"
| "receiver (Run kw us) = [kw]"
| "receiver (Export_data kw f) = [kw]"
| "receiver (Get_data kw) = [kw]"
| "receiver (Crawler_log_info kw m) = [kw]"
| "receiver c = []"


subsection \<open>A model of the crawler library\<close>

text \<open>
  Modelled from the spec: the crawling engine (request queue, browser, dataset, export)
  is not in the source file. The spec gives it a request cap, a seed list, a handler that
  is invoked once per crawled page and may append one record per invocation, a dataset
  that the library owns, an export to a file and a bulk read, and leaves retries and
  error handling to the library. The world of the model is the web (which urls are
  reachable and the page found there), the request queue, the urls crawled and failed so
  far, the dataset, the files written and the log. The exceptions of the model are two
  of the browser's.
\<close>

datatype exception = TimeoutError | TargetClosedError

record web_page =
  page_title :: str
  page_content :: str
  page_links :: "str list"

record crawl_world =
  web :: "str \<Rightarrow> web_page option"
  request_queue :: "str list"
  crawled :: "str list"
  failed :: "str list"
  dataset :: "data list"
  files :: "str \<Rightarrow> data list option"
  logged :: "message list"

text \<open>
  Modelled from the spec: the request cap is the integer given at construction. The spec
  has no crawler without a cap; the model gives a configuration without one the cap 0.
\<close>

definition request_cap :: "kwargs \<Rightarrow> nat" where
  "request_cap kw = (case map_of kw ''max_requests_per_crawl'' of Some (PyInt n) \<Rightarrow> nat n | _ \<Rightarrow> 0)"

text \<open>
  Modelled from the spec: one invocation of the registered handler for a crawled page.
  Error handling is the library's: a handler that raises marks the request as failed and
  the crawl goes on.
\<close>

definition invoke ::
    "(crawl_world, 'e, web_page) handler option \<Rightarrow> web_page PlaywrightCrawlingContext \<Rightarrow> crawl_world \<Rightarrow> crawl_world" where
  "invoke r context w =
     (case r of
        None \<Rightarrow> w
      | Some h \<Rightarrow>
          (case h context w of
             (Inl e, w') \<Rightarrow> w'\<lparr>failed := failed w' @ [url (request context)]\<rparr>
           | (Inr _, w') \<Rightarrow> w'))"

text \<open>
  Modelled from the spec: the crawl takes requests from the queue until the queue is
  empty or the request cap is used up. A url that is reachable is a crawled page, and the
  handler is invoked once for it; a url that is not reachable is dropped.
\<close>

fun crawl ::
    "nat \<Rightarrow> (crawl_world, 'e, web_page) handler option \<Rightarrow> crawl_world \<Rightarrow> crawl_world" where
  "crawl 0 r w = w"
| "crawl (Suc n) r w =
     (case request_queue w of
        [] \<Rightarrow> w
      | u # us \<Rightarrow>
          (case web w u of
             None \<Rightarrow> crawl n r (w\<lparr>request_queue := us\<rparr>)
           | Some p \<Rightarrow>
               crawl n r
                 (invoke r \<lparr>request = \<lparr>url = u\<rparr>, page = p\<rparr>
                    (w\<lparr>request_queue := us, crawled := crawled w @ [u]\<rparr>))))"

text \<open>
  Modelled from the spec: the library's operations. None of them raises. The run starts
  from the seed list; \<^verbatim>\<open>enqueue_links\<close> puts the links of the page on the queue;
  \<^verbatim>\<open>push_data\<close> appends the record to the dataset; \<^verbatim>\<open>export_data\<close> writes the dataset
  to the file; \<^verbatim>\<open>get_data\<close> returns the dataset's items.
\<close>

definition model_library :: "(crawl_world, exception, web_page) library" where
  "model_library =
     \<lparr>PlaywrightCrawler = (\<lambda>kw w. (Inr (), w)),
      default_handler = (\<lambda>crawler h w. (Inr (), w)),
      run = (\<lambda>crawler seeds w.
        (Inr (), crawl (request_cap (configuration crawler)) (router crawler)
                   (w\<lparr>request_queue := seeds\<rparr>))),
      export_data = (\<lambda>crawler f w. (Inr (), w\<lparr>files := (files w)(f \<mapsto> dataset w)\<rparr>)),
      get_data = (\<lambda>crawler w. (Inr \<lparr>items = dataset w\<rparr>, w)),
      crawler_log_info = (\<lambda>crawler m w. (Inr (), w\<lparr>logged := logged w @ [m]\<rparr>)),
      context_log_info = (\<lambda>context m w. (Inr (), w\<lparr>logged := logged w @ [m]\<rparr>)),
      enqueue_links = (\<lambda>context w.
        (Inr (), w\<lparr>request_queue := request_queue w @ page_links (page context)\<rparr>)),
      title = (\<lambda>p w. (Inr (page_title p), w)),
      content = (\<lambda>p w. (Inr (page_content p), w)),
      push_data = (\<lambda>context d w. (Inr (), w\<lparr>dataset := dataset w @ [d]\<rparr>))\<rparr>"

text \<open>The record the handler builds for a page of the model.\<close>

definition record_of :: "web_page PlaywrightCrawlingContext \<Rightarrow> data" where
  "record_of context =
     [(''url'', url (request context)),
      (''title'', page_title (page context)),
      (''content'', take 100 (page_content (page context)))]"

subsection \<open>Concrete inputs\<close>

text \<open>A web with one reachable page, whose content has 206 characters.\<close>

definition home_page :: web_page where
  "home_page =
     \<lparr>page_title = literal ''Crawlee'',
      page_content = literal ''<html>'' @ replicate 200 120,
      page_links = []\<rparr>"

definition home_web :: "str \<Rightarrow> web_page option" where
  "home_web u = (if u = literal ''https://crawlee.dev'' then Some home_page else None)"

definition home_world :: crawl_world where
  "home_world =
     \<lparr>web = home_web, request_queue = [], crawled = [], failed = [], dataset = [],
      files = (\<lambda>f. None), logged = []\<rparr>"

definition home_context :: "web_page PlaywrightCrawlingContext" where
  "home_context = \<lparr>request = \<lparr>url = literal ''https://crawlee.dev''\<rparr>, page = home_page\<rparr>"

text \<open>A library whose link enqueueing times out.\<close>

definition timeout_library :: "(crawl_world, exception, web_page) library" where
  "timeout_library = model_library\<lparr>enqueue_links := (\<lambda>context w. (Inl TimeoutError, w))\<rparr>"

text \<open>
  The model library with one operation broken: that operation raises and leaves the world
  as it is, the others are the model's.
\<close>

datatype operation =
    Construction | Registration | Running | Exporting | Reading | Crawler_logging
  | Context_logging | Enqueueing | Title_retrieval | Content_retrieval | Submission

definition break :: "operation \<Rightarrow> operation \<Rightarrow> (crawl_world, exception, 'a) external
    \<Rightarrow> (crawl_world, exception, 'a) external" where
  "break broken op f = (if broken = op then (\<lambda>w. (Inl TargetClosedError, w)) else f)"

definition broken_library :: "operation \<Rightarrow> (crawl_world, exception, web_page) library" where
  "broken_library broken =
     \<lparr>PlaywrightCrawler = (\<lambda>kw. break broken Construction (PlaywrightCrawler model_library kw)),
      default_handler = (\<lambda>crawler h.
        break broken Registration (default_handler model_library crawler h)),
      run = (\<lambda>crawler seeds. break broken Running (run model_library crawler seeds)),
      export_data = (\<lambda>crawler f. break broken Exporting (export_data model_library crawler f)),
      get_data = (\<lambda>crawler. break broken Reading (get_data model_library crawler)),
      crawler_log_info = (\<lambda>crawler m.
        break broken Crawler_logging (crawler_log_info model_library crawler m)),
      context_log_info = (\<lambda>context m.
        break broken Context_logging (context_log_info model_library context m)),
      enqueue_links = (\<lambda>context. break broken Enqueueing (enqueue_links model_library context)),
      title = (\<lambda>p. break broken Title_retrieval (title model_library p)),
      content = (\<lambda>p. break broken Content_retrieval (content model_library p)),
      push_data = (\<lambda>context d. break broken Submission (push_data model_library context d))\<rparr>"

section \<open>Properties\<close>

subsection \<open>Library calls in sequence\<close>

lemma bind_perform:
  "bind (perform c f) k s =
     (case f (world s) of
        (Inl e, w) \<Rightarrow> (Inl e, \<lparr>world = w, trace = trace s @ [(c, Raised e)]\<rparr>)
      | (Inr x, w) \<Rightarrow> k x \<lparr>world = w, trace = trace s @ [(c, Returned)]\<rparr>)"
  by (simp add: bind_def perform_def split: prod.splits sum.splits)

lemmas script_unfold = bind_perform perform_def start_def calls_def Let_def

lemmas main_unfold = main_trace_def main_def script_unfold

lemmas handler_unfold = handler_trace_def request_handler_def script_unfold

text \<open>
  When the four calls before \<^verbatim>\<open>push_data\<close> return, the handler comes down to the
  submission of the record built from the values they returned.
\<close>

lemma request_handler_steps:
  assumes "context_log_info lib context (processing context) w = (Inr x1, w1)"
      and "enqueue_links lib context w1 = (Inr x2, w2)"
      and "title lib (page context) w2 = (Inr t, w3)"
      and "content lib (page context) w3 = (Inr c, w4)"
  shows "request_handler lib context (start w) =
           perform (Push_data [(''url'', url (request context)), (''title'', t), (''content'', take 100 c)])
             (push_data lib context
                [(''url'', url (request context)), (''title'', t), (''content'', take 100 c)])
             \<lparr>world = w4,
              trace = [(Context_log_info (processing context), Returned), (Enqueue_links, Returned),
                       (Page_title, Returned), (Page_content, Returned)]\<rparr>"
  using assms
  by (simp add: request_handler_def bind_def perform_def start_def Let_def
        split: prod.splits sum.splits)



text \<open>
  The handler and \<^verbatim>\<open>main\<close> case by case: what each comes down to when the calls
  before a given one return and that one raises, or returns.
\<close>

lemma handler_log_raises:
  "context_log_info lib context (processing context) w = (Inl e, w1) \<Longrightarrow>
   request_handler lib context (start w) =
     (Inl e, \<lparr>world = w1, trace = [(Context_log_info (processing context), Raised e)]\<rparr>)"
  by (simp add: request_handler_def script_unfold)

lemma handler_enqueue_raises:
  "context_log_info lib context (processing context) w = (Inr x1, w1) \<Longrightarrow>
   enqueue_links lib context w1 = (Inl e, w2) \<Longrightarrow>
   request_handler lib context (start w) =
     (Inl e, \<lparr>world = w2, trace = [(Context_log_info (processing context), Returned),
                                   (Enqueue_links, Raised e)]\<rparr>)"
  by (simp add: request_handler_def script_unfold)

lemma handler_title_raises:
  "context_log_info lib context (processing context) w = (Inr x1, w1) \<Longrightarrow>
   enqueue_links lib context w1 = (Inr x2, w2) \<Longrightarrow>
   title lib (page context) w2 = (Inl e, w3) \<Longrightarrow>
   request_handler lib context (start w) =
     (Inl e, \<lparr>world = w3, trace = [(Context_log_info (processing context), Returned),
                                   (Enqueue_links, Returned), (Page_title, Raised e)]\<rparr>)"
  by (simp add: request_handler_def script_unfold)

lemma handler_content_raises:
  "context_log_info lib context (processing context) w = (Inr x1, w1) \<Longrightarrow>
   enqueue_links lib context w1 = (Inr x2, w2) \<Longrightarrow>
   title lib (page context) w2 = (Inr t, w3) \<Longrightarrow>
   content lib (page context) w3 = (Inl e, w4) \<Longrightarrow>
   request_handler lib context (start w) =
     (Inl e, \<lparr>world = w4, trace = [(Context_log_info (processing context), Returned),
                                   (Enqueue_links, Returned), (Page_title, Returned),
                                   (Page_content, Raised e)]\<rparr>)"
  by (simp add: request_handler_def script_unfold)

lemma handler_prefix:
  "\<exists>d. prefix (calls (handler_trace lib context w))
     [Context_log_info (processing context), Enqueue_links, Page_title, Page_content, Push_data d]"
  by (simp add: handler_unfold split: prod.splits sum.splits)



lemma main_run_raises:
  "PlaywrightCrawler lib crawler_options w = (Inr x1, w1) \<Longrightarrow>
   default_handler lib new_crawler (on_world (request_handler lib)) w1 = (Inr x2, w2) \<Longrightarrow>
   run lib (registered_crawler lib) start_urls w2 = (Inl e, w3) \<Longrightarrow>
   main lib (start w) =
     (Inl e, \<lparr>world = w3, trace = [(New_PlaywrightCrawler crawler_options, Returned),
                                   (Router_default_handler crawler_options, Returned),
                                   (Run crawler_options start_urls, Raised e)]\<rparr>)"
  by (simp add: main_def script_unfold new_crawler_def registered_crawler_def)

lemma main_export_raises:
  "PlaywrightCrawler lib crawler_options w = (Inr x1, w1) \<Longrightarrow>
   default_handler lib new_crawler (on_world (request_handler lib)) w1 = (Inr x2, w2) \<Longrightarrow>
   run lib (registered_crawler lib) start_urls w2 = (Inr x3, w3) \<Longrightarrow>
   export_data lib (registered_crawler lib) results_file w3 = (Inl e, w4) \<Longrightarrow>
   main lib (start w) =
     (Inl e, \<lparr>world = w4, trace = [(New_PlaywrightCrawler crawler_options, Returned),
                                   (Router_default_handler crawler_options, Returned),
                                   (Run crawler_options start_urls, Returned),
                                   (Export_data crawler_options results_file, Raised e)]\<rparr>)"
  by (simp add: main_def script_unfold new_crawler_def registered_crawler_def)

lemma main_get_data_raises:
  "PlaywrightCrawler lib crawler_options w = (Inr x1, w1) \<Longrightarrow>
   default_handler lib new_crawler (on_world (request_handler lib)) w1 = (Inr x2, w2) \<Longrightarrow>
   run lib (registered_crawler lib) start_urls w2 = (Inr x3, w3) \<Longrightarrow>
   export_data lib (registered_crawler lib) results_file w3 = (Inr x4, w4) \<Longrightarrow>
   get_data lib (registered_crawler lib) w4 = (Inl e, w5) \<Longrightarrow>
   main lib (start w) =
     (Inl e, \<lparr>world = w5, trace = [(New_PlaywrightCrawler crawler_options, Returned),
                                   (Router_default_handler crawler_options, Returned),
                                   (Run crawler_options start_urls, Returned),
                                   (Export_data crawler_options results_file, Returned),
                                   (Get_data crawler_options, Raised e)]\<rparr>)"
  by (simp add: main_def script_unfold new_crawler_def registered_crawler_def)

lemma main_five_return:
  "PlaywrightCrawler lib crawler_options w = (Inr x1, w1) \<Longrightarrow>
   default_handler lib new_crawler (on_world (request_handler lib)) w1 = (Inr x2, w2) \<Longrightarrow>
   run lib (registered_crawler lib) start_urls w2 = (Inr x3, w3) \<Longrightarrow>
   export_data lib (registered_crawler lib) results_file w3 = (Inr x4, w4) \<Longrightarrow>
   get_data lib (registered_crawler lib) w4 = (Inr d, w5) \<Longrightarrow>
   main lib (start w) =
     perform (Crawler_log_info crawler_options (extracted d))
       (crawler_log_info lib (registered_crawler lib) (extracted d))
       \<lparr>world = w5, trace = map (\<lambda>c. (c, Returned)) main_steps\<rparr>"
  by (simp add: main_def bind_def perform_def start_def Let_def new_crawler_def registered_crawler_def main_steps_def)

lemma main_prefix:
  "\<exists>m. prefix (calls (main_trace lib w)) (main_steps @ [Crawler_log_info crawler_options m])"
  by (simp add: main_unfold main_steps_def split: prod.splits sum.splits)

subsection \<open>The model library\<close>

lemma model_ops:
  "PlaywrightCrawler model_library = (\<lambda>kw w. (Inr (), w))"
  "default_handler model_library = (\<lambda>crawler h w. (Inr (), w))"
  "run model_library = (\<lambda>crawler seeds w.
        (Inr (), crawl (request_cap (configuration crawler)) (router crawler)
                   (w\<lparr>request_queue := seeds\<rparr>)))"
  "export_data model_library = (\<lambda>crawler f w. (Inr (), w\<lparr>files := (files w)(f \<mapsto> dataset w)\<rparr>))"
  "get_data model_library = (\<lambda>crawler w. (Inr \<lparr>items = dataset w\<rparr>, w))"
  "crawler_log_info model_library = (\<lambda>crawler m w. (Inr (), w\<lparr>logged := logged w @ [m]\<rparr>))"
  "context_log_info model_library = (\<lambda>context m w. (Inr (), w\<lparr>logged := logged w @ [m]\<rparr>))"
  "enqueue_links model_library = (\<lambda>context w.
        (Inr (), w\<lparr>request_queue := request_queue w @ page_links (page context)\<rparr>))"
  "title model_library = (\<lambda>p w. (Inr (page_title p), w))"
  "content model_library = (\<lambda>p w. (Inr (page_content p), w))"
  "push_data model_library = (\<lambda>context d w. (Inr (), w\<lparr>dataset := dataset w @ [d]\<rparr>))"
  by (simp_all add: model_library_def)

lemma timeout_ops:
  "PlaywrightCrawler timeout_library = (\<lambda>kw w. (Inr (), w))"
  "default_handler timeout_library = (\<lambda>crawler h w. (Inr (), w))"
  "run timeout_library = (\<lambda>crawler seeds w.
        (Inr (), crawl (request_cap (configuration crawler)) (router crawler)
                   (w\<lparr>request_queue := seeds\<rparr>)))"
  "export_data timeout_library = (\<lambda>crawler f w. (Inr (), w\<lparr>files := (files w)(f \<mapsto> dataset w)\<rparr>))"
  "get_data timeout_library = (\<lambda>crawler w. (Inr \<lparr>items = dataset w\<rparr>, w))"
  "crawler_log_info timeout_library = (\<lambda>crawler m w. (Inr (), w\<lparr>logged := logged w @ [m]\<rparr>))"
  "context_log_info timeout_library = (\<lambda>context m w. (Inr (), w\<lparr>logged := logged w @ [m]\<rparr>))"
  "enqueue_links timeout_library = (\<lambda>context w. (Inl TimeoutError, w))"
  by (simp_all add: timeout_library_def model_library_def)

lemma broken_ops:
  "PlaywrightCrawler (broken_library b) = (\<lambda>kw. break b Construction (\<lambda>w. (Inr (), w)))"
  "default_handler (broken_library b) = (\<lambda>crawler h. break b Registration (\<lambda>w. (Inr (), w)))"
  "run (broken_library b) = (\<lambda>crawler seeds. break b Running (\<lambda>w.
        (Inr (), crawl (request_cap (configuration crawler)) (router crawler)
                   (w\<lparr>request_queue := seeds\<rparr>))))"
  "export_data (broken_library b) = (\<lambda>crawler f. break b Exporting
        (\<lambda>w. (Inr (), w\<lparr>files := (files w)(f \<mapsto> dataset w)\<rparr>)))"
  "get_data (broken_library b) = (\<lambda>crawler. break b Reading (\<lambda>w. (Inr \<lparr>items = dataset w\<rparr>, w)))"
  "crawler_log_info (broken_library b) = (\<lambda>crawler m. break b Crawler_logging
        (\<lambda>w. (Inr (), w\<lparr>logged := logged w @ [m]\<rparr>)))"
  "context_log_info (broken_library b) = (\<lambda>context m. break b Context_logging
        (\<lambda>w. (Inr (), w\<lparr>logged := logged w @ [m]\<rparr>)))"
  "enqueue_links (broken_library b) = (\<lambda>context. break b Enqueueing (\<lambda>w.
        (Inr (), w\<lparr>request_queue := request_queue w @ page_links (page context)\<rparr>)))"
  "title (broken_library b) = (\<lambda>p. break b Title_retrieval (\<lambda>w. (Inr (page_title p), w)))"
  "content (broken_library b) = (\<lambda>p. break b Content_retrieval (\<lambda>w. (Inr (page_content p), w)))"
  "push_data (broken_library b) = (\<lambda>context d. break b Submission
        (\<lambda>w. (Inr (), w\<lparr>dataset := dataset w @ [d]\<rparr>)))"
  by (simp_all add: broken_library_def model_ops)


text \<open>In the model library the handler returns, having logged, enqueued and pushed.\<close>

lemma handler_model:
  "on_world (request_handler model_library) context w =
     (Inr (), w\<lparr>logged := logged w @ [processing context],
                request_queue := request_queue w @ page_links (page context),
                dataset := dataset w @ [record_of context]\<rparr>)"
  by (simp add: on_world_def request_handler_def script_unfold model_ops record_of_def)

lemma invoke_model:
  "invoke (Some (on_world (request_handler model_library))) context w =
     w\<lparr>logged := logged w @ [processing context],
       request_queue := request_queue w @ page_links (page context),
       dataset := dataset w @ [record_of context]\<rparr>"
  by (simp add: invoke_def handler_model)

lemma request_cap_options: "request_cap crawler_options = 5"
  by (simp add: request_cap_def crawler_options_def)

lemma main_model:
  "main model_library (start w) =
     (let w1 = crawl 5 (Some (on_world (request_handler model_library)))
                 (w\<lparr>request_queue := start_urls\<rparr>)
      in (Inr (),
          \<lparr>world = w1\<lparr>files := (files w1)(results_file \<mapsto> dataset w1),
                      logged := logged w1 @ [extracted \<lparr>items = dataset w1\<rparr>]\<rparr>,
           trace = map (\<lambda>c. (c, Returned))
                     (main_steps @
                      [Crawler_log_info crawler_options (extracted \<lparr>items = dataset w1\<rparr>)])\<rparr>))"
  by (simp add: main_def script_unfold model_ops request_cap_options main_steps_def)

text \<open>
  The crawl of the model, for a handler that behaves as the script's does: the pages
  crawled, the log lines and the records grow together, one of each per page.
\<close>

lemma crawl_invariant:
  assumes h: "\<And>context w. invoke h context w =
     w\<lparr>logged := logged w @ [processing context],
       request_queue := request_queue w @ page_links (page context),
       dataset := dataset w @ [record_of context]\<rparr>"
  shows "\<exists>us. crawled (crawl n h w) = crawled w @ us
     \<and> logged (crawl n h w)
         = logged w @ map (\<lambda>u. [Text ''Processing '', Format_str u, Text '' ...'']) us
     \<and> map (\<lambda>d. map_of d ''url'') (dataset (crawl n h w))
         = map (\<lambda>d. map_of d ''url'') (dataset w) @ map Some us
     \<and> failed (crawl n h w) = failed w
     \<and> files (crawl n h w) = files w
     \<and> web (crawl n h w) = web w"
proof (induction n arbitrary: w)
  case 0
  show ?case by simp
next
  case (Suc n)
  show ?case
  proof (cases "request_queue w")
    case Nil
    then show ?thesis by simp
  next
    case (Cons u us)
    show ?thesis
    proof (cases "web w u")
      case None
      with Cons Suc.IH [of "w\<lparr>request_queue := us\<rparr>"] show ?thesis by simp
    next
      case (Some p)
      define w1 where "w1 = invoke h \<lparr>request = \<lparr>url = u\<rparr>, page = p\<rparr>
                              (w\<lparr>request_queue := us, crawled := crawled w @ [u]\<rparr>)"
      have step: "crawl (Suc n) h w = crawl n h w1"
        using Cons Some by (simp add: w1_def)
      have w1: "crawled w1 = crawled w @ [u]"
        "logged w1 = logged w @ [[Text ''Processing '', Format_str u, Text '' ...'']]"
        "dataset w1 = dataset w @ [record_of \<lparr>request = \<lparr>url = u\<rparr>, page = p\<rparr>]"
        "failed w1 = failed w" "files w1 = files w" "web w1 = web w"
        by (simp_all add: w1_def h processing_def)
      from Suc.IH [of w1] obtain vs where vs:
        "crawled (crawl n h w1) = crawled w1 @ vs"
        "logged (crawl n h w1)
           = logged w1 @ map (\<lambda>u. [Text ''Processing '', Format_str u, Text '' ...'']) vs"
        "map (\<lambda>d. map_of d ''url'') (dataset (crawl n h w1))
           = map (\<lambda>d. map_of d ''url'') (dataset w1) @ map Some vs"
        "failed (crawl n h w1) = failed w1" "files (crawl n h w1) = files w1"
        "web (crawl n h w1) = web w1"
        by blast
      show ?thesis
        unfolding step
        by (rule exI [of _ "u # vs"]) (simp add: vs w1 record_of_def)
    qed
  qed
qed



section \<open>The claims\<close>

subsection \<open>The request handler\<close>

text \<open>
  C1, as the code has it. An invocation of the handler in which the log call, the link
  enqueueing, the title retrieval and the content retrieval return submits exactly one
  record, by one call of \<^verbatim>\<open>push_data\<close> in the world the content retrieval left: a
  dictionary with exactly the three keys \<^verbatim>\<open>url\<close>, \<^verbatim>\<open>title\<close> and \<^verbatim>\<open>content\<close>,
  whose values are the url of the request, the title the page returned and the first 100
  characters of the content the page returned. The invocation ends as that call ends,
  and the record is accepted when the call returns and not when it raises. An
  invocation in which one of the four earlier calls raises submits no record.
\<close>

theorem request_handler_one_record:
  "(context_log_info lib context (processing context) w = (Inr x1, w1)
      \<and> enqueue_links lib context w1 = (Inr x2, w2)
      \<and> title lib (page context) w2 = (Inr t, w3)
      \<and> content lib (page context) w3 = (Inr c, w4) \<longrightarrow>
    (let data = [(''url'', url (request context)), (''title'', t), (''content'', take 100 c)]
     in submitted (handler_trace lib context w) = [data]
      \<and> fst (request_handler lib context (start w)) = fst (push_data lib context data w4)
      \<and> world (snd (request_handler lib context (start w))) = snd (push_data lib context data w4)
      \<and> accepted (handler_trace lib context w)
          = (if fst (push_data lib context data w4) = Inr () then [data] else [])))
   \<and> (context_log_info lib context (processing context) w = (Inl e, w1) \<longrightarrow>
        submitted (handler_trace lib context w) = [])
   \<and> (context_log_info lib context (processing context) w = (Inr x1, w1)
      \<and> enqueue_links lib context w1 = (Inl e, w2) \<longrightarrow>
        submitted (handler_trace lib context w) = [])
   \<and> (context_log_info lib context (processing context) w = (Inr x1, w1)
      \<and> enqueue_links lib context w1 = (Inr x2, w2)
      \<and> title lib (page context) w2 = (Inl e, w3) \<longrightarrow>
        submitted (handler_trace lib context w) = [])
   \<and> (context_log_info lib context (processing context) w = (Inr x1, w1)
      \<and> enqueue_links lib context w1 = (Inr x2, w2)
      \<and> title lib (page context) w2 = (Inr t, w3)
      \<and> content lib (page context) w3 = (Inl e, w4) \<longrightarrow>
        submitted (handler_trace lib context w) = [])"
proof -
  have "submitted (handler_trace lib context w) = []"
    if "context_log_info lib context (processing context) w = (Inl e, w1)"
    by (simp add: handler_trace_def handler_log_raises [OF that] submitted_def calls_def)
  moreover have "submitted (handler_trace lib context w) = []"
    if "context_log_info lib context (processing context) w = (Inr x1, w1)"
      and "enqueue_links lib context w1 = (Inl e, w2)"
    by (simp add: handler_trace_def handler_enqueue_raises [OF that] submitted_def calls_def)
  moreover have "submitted (handler_trace lib context w) = []"
    if "context_log_info lib context (processing context) w = (Inr x1, w1)"
      and "enqueue_links lib context w1 = (Inr x2, w2)"
      and "title lib (page context) w2 = (Inl e, w3)"
    by (simp add: handler_trace_def handler_title_raises [OF that] submitted_def calls_def)
  moreover have "submitted (handler_trace lib context w) = []"
    if "context_log_info lib context (processing context) w = (Inr x1, w1)"
      and "enqueue_links lib context w1 = (Inr x2, w2)"
      and "title lib (page context) w2 = (Inr t, w3)"
      and "content lib (page context) w3 = (Inl e, w4)"
    by (simp add: handler_trace_def handler_content_raises [OF that] submitted_def calls_def)
  moreover have
    "let data = [(''url'', url (request context)), (''title'', t), (''content'', take 100 c)]
     in submitted (handler_trace lib context w) = [data]
      \<and> fst (request_handler lib context (start w)) = fst (push_data lib context data w4)
      \<and> world (snd (request_handler lib context (start w))) = snd (push_data lib context data w4)
      \<and> accepted (handler_trace lib context w)
          = (if fst (push_data lib context data w4) = Inr () then [data] else [])"
    if "context_log_info lib context (processing context) w = (Inr x1, w1)"
      and "enqueue_links lib context w1 = (Inr x2, w2)"
      and "title lib (page context) w2 = (Inr t, w3)"
      and "content lib (page context) w3 = (Inr c, w4)"
    by (simp add: handler_trace_def request_handler_steps [OF that] perform_def submitted_def
          accepted_def calls_def Let_def split: prod.splits sum.splits)
  ultimately show ?thesis by blast
qed

theorem request_handler_one_record_witness:
  "submitted (handler_trace model_library home_context home_world) = [record_of home_context]
   \<and> accepted (handler_trace model_library home_context home_world) = [record_of home_context]
   \<and> submitted (handler_trace (broken_library Submission) home_context home_world)
       = [record_of home_context]
   \<and> accepted (handler_trace (broken_library Submission) home_context home_world) = []
   \<and> submitted (handler_trace (broken_library Context_logging) home_context home_world) = []
   \<and> submitted (handler_trace (broken_library Enqueueing) home_context home_world) = []
   \<and> submitted (handler_trace (broken_library Title_retrieval) home_context home_world) = []
   \<and> submitted (handler_trace (broken_library Content_retrieval) home_context home_world) = []"
proof -
  let ?w1 = "home_world\<lparr>logged := [processing home_context]\<rparr>"
  have "submitted (handler_trace model_library home_context home_world) = [record_of home_context]
      \<and> accepted (handler_trace model_library home_context home_world) = [record_of home_context]"
    using request_handler_one_record [of model_library home_context home_world "()" ?w1 "()" ?w1
        "page_title home_page" ?w1 "page_content home_page" ?w1]
    by (simp add: model_ops home_world_def home_context_def home_page_def record_of_def Let_def)
  moreover have "submitted (handler_trace (broken_library Submission) home_context home_world)
        = [record_of home_context]
      \<and> accepted (handler_trace (broken_library Submission) home_context home_world) = []"
    using request_handler_one_record [of "broken_library Submission" home_context home_world "()"
        ?w1 "()" ?w1 "page_title home_page" ?w1 "page_content home_page" ?w1]
    by (simp add: broken_ops break_def home_world_def home_context_def home_page_def record_of_def
          Let_def)
  moreover have
    "submitted (handler_trace (broken_library Context_logging) home_context home_world) = []"
    using request_handler_one_record [of "broken_library Context_logging" home_context home_world
        _ home_world _ _ _ _ _ _ TargetClosedError]
    by (simp add: broken_ops break_def)
  moreover have
    "submitted (handler_trace (broken_library Enqueueing) home_context home_world) = []"
    using request_handler_one_record [of "broken_library Enqueueing" home_context home_world "()"
        ?w1 _ ?w1 _ _ _ _ TargetClosedError]
    by (simp add: broken_ops break_def home_world_def)
  moreover have
    "submitted (handler_trace (broken_library Title_retrieval) home_context home_world) = []"
    using request_handler_one_record [of "broken_library Title_retrieval" home_context home_world
        "()" ?w1 "()" ?w1 _ ?w1 _ _ TargetClosedError]
    by (simp add: broken_ops break_def home_world_def home_context_def home_page_def)
  moreover have
    "submitted (handler_trace (broken_library Content_retrieval) home_context home_world) = []"
    using request_handler_one_record [of "broken_library Content_retrieval" home_context
        home_world "()" ?w1 "()" ?w1 "page_title home_page" ?w1 _ ?w1 TargetClosedError]
    by (simp add: broken_ops break_def home_world_def home_context_def home_page_def)
  ultimately show ?thesis by simp
qed

text \<open>
  C1 as stated fails: an invocation whose link enqueueing raises ends there and submits
  no record.
\<close>

theorem failed_invocation_no_record:
  "fst (request_handler timeout_library home_context (start home_world)) = Inl TimeoutError
   \<and> submitted (handler_trace timeout_library home_context home_world) = []"
  by (simp add: handler_unfold timeout_ops submitted_def)

text \<open>
  C2, as the code has it. In every invocation the calls of the handler are an initial
  segment of the log call, the link enqueueing, the title retrieval, the content
  retrieval and one record submission, each made on the library in the world the call
  before it left and only after that call returned; a call that raises ends the
  invocation with its exception. An invocation that returns has made exactly these
  calls, in this order: after the log call the three operations, then the one
  submission.
\<close>

theorem request_handler_calls:
  "(\<exists>d. prefix (calls (handler_trace lib context w))
          [Context_log_info (processing context), Enqueue_links, Page_title, Page_content,
           Push_data d])
   \<and> list_all returned (butlast (handler_trace lib context w))
   \<and> (fst (request_handler lib context (start w)) = Inr () \<longrightarrow>
        (\<exists>d. calls (handler_trace lib context w) =
           [Context_log_info (processing context), Enqueue_links, Page_title, Page_content,
            Push_data d]))
   \<and> (context_log_info lib context (processing context) w = (Inl e, w1) \<longrightarrow>
        request_handler lib context (start w) =
          (Inl e, \<lparr>world = w1, trace = [(Context_log_info (processing context), Raised e)]\<rparr>))
   \<and> (context_log_info lib context (processing context) w = (Inr x1, w1)
      \<and> enqueue_links lib context w1 = (Inl e, w2) \<longrightarrow>
        request_handler lib context (start w) =
          (Inl e, \<lparr>world = w2, trace = [(Context_log_info (processing context), Returned),
                                        (Enqueue_links, Raised e)]\<rparr>))
   \<and> (context_log_info lib context (processing context) w = (Inr x1, w1)
      \<and> enqueue_links lib context w1 = (Inr x2, w2)
      \<and> title lib (page context) w2 = (Inl e, w3) \<longrightarrow>
        request_handler lib context (start w) =
          (Inl e, \<lparr>world = w3, trace = [(Context_log_info (processing context), Returned),
                                        (Enqueue_links, Returned), (Page_title, Raised e)]\<rparr>))
   \<and> (context_log_info lib context (processing context) w = (Inr x1, w1)
      \<and> enqueue_links lib context w1 = (Inr x2, w2)
      \<and> title lib (page context) w2 = (Inr t, w3)
      \<and> content lib (page context) w3 = (Inl e, w4) \<longrightarrow>
        request_handler lib context (start w) =
          (Inl e, \<lparr>world = w4, trace = [(Context_log_info (processing context), Returned),
                                        (Enqueue_links, Returned), (Page_title, Returned),
                                        (Page_content, Raised e)]\<rparr>))
   \<and> (context_log_info lib context (processing context) w = (Inr x1, w1)
      \<and> enqueue_links lib context w1 = (Inr x2, w2)
      \<and> title lib (page context) w2 = (Inr t, w3)
      \<and> content lib (page context) w3 = (Inr c, w4) \<longrightarrow>
        request_handler lib context (start w) =
          perform
            (Push_data [(''url'', url (request context)), (''title'', t), (''content'', take 100 c)])
            (push_data lib context
               [(''url'', url (request context)), (''title'', t), (''content'', take 100 c)])
            \<lparr>world = w4, trace = [(Context_log_info (processing context), Returned),
                                  (Enqueue_links, Returned), (Page_title, Returned),
                                  (Page_content, Returned)]\<rparr>)"
proof -
  have "list_all returned (butlast (handler_trace lib context w))
   \<and> (fst (request_handler lib context (start w)) = Inr () \<longrightarrow>
        (\<exists>d. calls (handler_trace lib context w) =
           [Context_log_info (processing context), Enqueue_links, Page_title, Page_content,
            Push_data d]))"
    by (simp add: handler_unfold split: prod.splits sum.splits)
  with handler_prefix [of lib "context" w] handler_log_raises [of lib "context" w e w1]
    handler_enqueue_raises [of lib "context" w x1 w1 e w2]
    handler_title_raises [of lib "context" w x1 w1 x2 w2 e w3]
    handler_content_raises [of lib "context" w x1 w1 x2 w2 t w3 e w4]
    request_handler_steps [of lib "context" w x1 w1 x2 w2 t w3 c w4]
  show ?thesis by blast
qed

theorem request_handler_calls_witness:
  "request_handler model_library home_context (start home_world) =
     (Inr (), \<lparr>world = home_world\<lparr>logged := [processing home_context],
                                   dataset := [record_of home_context]\<rparr>,
               trace = [(Context_log_info (processing home_context), Returned),
                        (Enqueue_links, Returned), (Page_title, Returned),
                        (Page_content, Returned), (Push_data (record_of home_context), Returned)]\<rparr>)
   \<and> (\<exists>d. calls (handler_trace model_library home_context home_world) =
           [Context_log_info (processing home_context), Enqueue_links, Page_title, Page_content,
            Push_data d])
   \<and> request_handler (broken_library Context_logging) home_context (start home_world) =
       (Inl TargetClosedError,
        \<lparr>world = home_world,
         trace = [(Context_log_info (processing home_context), Raised TargetClosedError)]\<rparr>)
   \<and> request_handler (broken_library Enqueueing) home_context (start home_world) =
       (Inl TargetClosedError,
        \<lparr>world = home_world\<lparr>logged := [processing home_context]\<rparr>,
         trace = [(Context_log_info (processing home_context), Returned),
                  (Enqueue_links, Raised TargetClosedError)]\<rparr>)
   \<and> request_handler (broken_library Title_retrieval) home_context (start home_world) =
       (Inl TargetClosedError,
        \<lparr>world = home_world\<lparr>logged := [processing home_context]\<rparr>,
         trace = [(Context_log_info (processing home_context), Returned),
                  (Enqueue_links, Returned), (Page_title, Raised TargetClosedError)]\<rparr>)
   \<and> request_handler (broken_library Content_retrieval) home_context (start home_world) =
       (Inl TargetClosedError,
        \<lparr>world = home_world\<lparr>logged := [processing home_context]\<rparr>,
         trace = [(Context_log_info (processing home_context), Returned),
                  (Enqueue_links, Returned), (Page_title, Returned),
                  (Page_content, Raised TargetClosedError)]\<rparr>)"
proof -
  let ?w1 = "home_world\<lparr>logged := [processing home_context]\<rparr>"
  have returns: "request_handler model_library home_context (start home_world) =
     (Inr (), \<lparr>world = home_world\<lparr>logged := [processing home_context],
                                   dataset := [record_of home_context]\<rparr>,
               trace = [(Context_log_info (processing home_context), Returned),
                        (Enqueue_links, Returned), (Page_title, Returned),
                        (Page_content, Returned), (Push_data (record_of home_context), Returned)]\<rparr>)"
    using request_handler_calls [of model_library home_context home_world _ ?w1 "()" ?w1 "()" ?w1
        "page_title home_page" ?w1 "page_content home_page"]
    by (simp add: model_ops perform_def home_world_def home_context_def home_page_def
          record_of_def)
  then have "fst (request_handler model_library home_context (start home_world)) = Inr ()"
    by simp
  with request_handler_calls [of model_library home_context home_world]
  have "\<exists>d. calls (handler_trace model_library home_context home_world) =
           [Context_log_info (processing home_context), Enqueue_links, Page_title, Page_content,
            Push_data d]"
    by blast
  moreover have "request_handler (broken_library Context_logging) home_context (start home_world) =
       (Inl TargetClosedError,
        \<lparr>world = home_world,
         trace = [(Context_log_info (processing home_context), Raised TargetClosedError)]\<rparr>)"
    using request_handler_calls [of "broken_library Context_logging" home_context home_world
        TargetClosedError home_world]
    by (simp add: broken_ops break_def)
  moreover have "request_handler (broken_library Enqueueing) home_context (start home_world) =
       (Inl TargetClosedError,
        \<lparr>world = home_world\<lparr>logged := [processing home_context]\<rparr>,
         trace = [(Context_log_info (processing home_context), Returned),
                  (Enqueue_links, Raised TargetClosedError)]\<rparr>)"
    using request_handler_calls [of "broken_library Enqueueing" home_context home_world
        TargetClosedError ?w1 "()" ?w1]
    by (simp add: broken_ops break_def home_world_def)
  moreover have "request_handler (broken_library Title_retrieval) home_context (start home_world) =
       (Inl TargetClosedError,
        \<lparr>world = home_world\<lparr>logged := [processing home_context]\<rparr>,
         trace = [(Context_log_info (processing home_context), Returned),
                  (Enqueue_links, Returned), (Page_title, Raised TargetClosedError)]\<rparr>)"
    using request_handler_calls [of "broken_library Title_retrieval" home_context home_world
        TargetClosedError ?w1 "()" ?w1 "()" ?w1]
    by (simp add: broken_ops break_def home_world_def home_context_def home_page_def)
  moreover have "request_handler (broken_library Content_retrieval) home_context (start home_world) =
       (Inl TargetClosedError,
        \<lparr>world = home_world\<lparr>logged := [processing home_context]\<rparr>,
         trace = [(Context_log_info (processing home_context), Returned),
                  (Enqueue_links, Returned), (Page_title, Returned),
                  (Page_content, Raised TargetClosedError)]\<rparr>)"
    using request_handler_calls [of "broken_library Content_retrieval" home_context home_world
        TargetClosedError ?w1 "()" ?w1 "()" ?w1 "page_title home_page" ?w1]
    by (simp add: broken_ops break_def home_world_def home_context_def home_page_def)
  ultimately show ?thesis using returns by simp
qed

text \<open>
  C2 as stated fails: an invocation whose link enqueueing raises performs the log call
  and the enqueueing only, neither retrieval and no submission.
\<close>

theorem failed_invocation_calls:
  "calls (handler_trace timeout_library home_context home_world) =
     [Context_log_info (processing home_context), Enqueue_links]"
  by (simp add: handler_unfold timeout_ops)

subsection \<open>The coroutine main\<close>

text \<open>
  C3, as the code has it. In every execution of \<^verbatim>\<open>main\<close> the calls are an initial
  segment of: construct the crawler, register the handler, run the crawler on the seed
  list, export the data, read the data, log the items. Each call is made on the library
  in the world the call before it left and only after that call returned, so an export is
  made only after the run has returned, in the world the run left; a call that raises
  ends \<^verbatim>\<open>main\<close> with its exception, and the later steps are not executed. An execution
  in which the five steps return has executed all five, in this order, and ends with
  the log call.
\<close>

theorem main_steps_in_sequence:
  "(\<exists>m. prefix (calls (main_trace lib w)) (main_steps @ [Crawler_log_info crawler_options m]))
   \<and> list_all returned (butlast (main_trace lib w))
   \<and> ((Export_data crawler_options results_file, oc) \<in> set (main_trace lib w) \<longrightarrow>
        (Run crawler_options start_urls, Returned) \<in> set (main_trace lib w))
   \<and> (fst (main lib (start w)) = Inr () \<longrightarrow> take 5 (calls (main_trace lib w)) = main_steps)
   \<and> (PlaywrightCrawler lib crawler_options w = (Inr x1, w1)
      \<and> default_handler lib new_crawler (on_world (request_handler lib)) w1 = (Inr x2, w2)
      \<and> run lib (registered_crawler lib) start_urls w2 = (Inl e, w3) \<longrightarrow>
        main lib (start w) =
          (Inl e, \<lparr>world = w3, trace = [(New_PlaywrightCrawler crawler_options, Returned),
                                        (Router_default_handler crawler_options, Returned),
                                        (Run crawler_options start_urls, Raised e)]\<rparr>))
   \<and> (PlaywrightCrawler lib crawler_options w = (Inr x1, w1)
      \<and> default_handler lib new_crawler (on_world (request_handler lib)) w1 = (Inr x2, w2)
      \<and> run lib (registered_crawler lib) start_urls w2 = (Inr x3, w3)
      \<and> export_data lib (registered_crawler lib) results_file w3 = (Inl e, w4) \<longrightarrow>
        main lib (start w) =
          (Inl e, \<lparr>world = w4, trace = [(New_PlaywrightCrawler crawler_options, Returned),
                                        (Router_default_handler crawler_options, Returned),
                                        (Run crawler_options start_urls, Returned),
                                        (Export_data crawler_options results_file, Raised e)]\<rparr>))
   \<and> (PlaywrightCrawler lib crawler_options w = (Inr x1, w1)
      \<and> default_handler lib new_crawler (on_world (request_handler lib)) w1 = (Inr x2, w2)
      \<and> run lib (registered_crawler lib) start_urls w2 = (Inr x3, w3)
      \<and> export_data lib (registered_crawler lib) results_file w3 = (Inr x4, w4)
      \<and> get_data lib (registered_crawler lib) w4 = (Inl e, w5) \<longrightarrow>
        main lib (start w) =
          (Inl e, \<lparr>world = w5, trace = [(New_PlaywrightCrawler crawler_options, Returned),
                                        (Router_default_handler crawler_options, Returned),
                                        (Run crawler_options start_urls, Returned),
                                        (Export_data crawler_options results_file, Returned),
                                        (Get_data crawler_options, Raised e)]\<rparr>))
   \<and> (PlaywrightCrawler lib crawler_options w = (Inr x1, w1)
      \<and> default_handler lib new_crawler (on_world (request_handler lib)) w1 = (Inr x2, w2)
      \<and> run lib (registered_crawler lib) start_urls w2 = (Inr x3, w3)
      \<and> export_data lib (registered_crawler lib) results_file w3 = (Inr x4, w4)
      \<and> get_data lib (registered_crawler lib) w4 = (Inr d, w5) \<longrightarrow>
        main lib (start w) =
          perform (Crawler_log_info crawler_options (extracted d))
            (crawler_log_info lib (registered_crawler lib) (extracted d))
            \<lparr>world = w5, trace = map (\<lambda>c. (c, Returned)) main_steps\<rparr>)"
proof -
  have "list_all returned (butlast (main_trace lib w))
   \<and> ((Export_data crawler_options results_file, oc) \<in> set (main_trace lib w) \<longrightarrow>
        (Run crawler_options start_urls, Returned) \<in> set (main_trace lib w))
   \<and> (fst (main lib (start w)) = Inr () \<longrightarrow> take 5 (calls (main_trace lib w)) = main_steps)"
    by (simp add: main_unfold main_steps_def split: prod.splits sum.splits)
  with main_prefix [of lib w] main_run_raises [of lib w x1 w1 x2 w2 e w3]
    main_export_raises [of lib w x1 w1 x2 w2 x3 w3 e w4]
    main_get_data_raises [of lib w x1 w1 x2 w2 x3 w3 x4 w4 e w5]
    main_five_return [of lib w x1 w1 x2 w2 x3 w3 x4 w4 d w5]
  show ?thesis by blast
qed

theorem main_steps_in_sequence_witness:
  "(Export_data crawler_options results_file, Returned) \<in> set (main_trace model_library home_world)
   \<and> (Run crawler_options start_urls, Returned) \<in> set (main_trace model_library home_world)
   \<and> fst (main model_library (start home_world)) = Inr ()
   \<and> take 5 (calls (main_trace model_library home_world)) = main_steps
   \<and> main (broken_library Running) (start home_world) =
       (Inl TargetClosedError,
        \<lparr>world = home_world, trace = [(New_PlaywrightCrawler crawler_options, Returned),
                                      (Router_default_handler crawler_options, Returned),
                                      (Run crawler_options start_urls, Raised TargetClosedError)]\<rparr>)
   \<and> fst (main (broken_library Exporting) (start home_world)) = Inl TargetClosedError
   \<and> main_trace (broken_library Exporting) home_world =
        [(New_PlaywrightCrawler crawler_options, Returned),
         (Router_default_handler crawler_options, Returned),
         (Run crawler_options start_urls, Returned),
         (Export_data crawler_options results_file, Raised TargetClosedError)]
   \<and> fst (main (broken_library Reading) (start home_world)) = Inl TargetClosedError
   \<and> main_trace (broken_library Reading) home_world =
        [(New_PlaywrightCrawler crawler_options, Returned),
         (Router_default_handler crawler_options, Returned),
         (Run crawler_options start_urls, Returned),
         (Export_data crawler_options results_file, Returned),
         (Get_data crawler_options, Raised TargetClosedError)]
   \<and> main_trace model_library home_world =
        map (\<lambda>c. (c, Returned))
          (main_steps @
           [Crawler_log_info crawler_options
              (extracted \<lparr>items = dataset (world (snd (main model_library (start home_world))))\<rparr>)])"
proof -
  have exported:
    "(Export_data crawler_options results_file, Returned) \<in> set (main_trace model_library home_world)"
    by (simp add: main_trace_def main_model Let_def main_steps_def)
  have returns: "fst (main model_library (start home_world)) = Inr ()"
    by (simp add: main_model Let_def)
  from main_steps_in_sequence [of model_library home_world Returned] exported returns
  have "(Run crawler_options start_urls, Returned) \<in> set (main_trace model_library home_world)
      \<and> take 5 (calls (main_trace model_library home_world)) = main_steps"
    by blast
  moreover have "main (broken_library Running) (start home_world) =
       (Inl TargetClosedError,
        \<lparr>world = home_world, trace = [(New_PlaywrightCrawler crawler_options, Returned),
                                      (Router_default_handler crawler_options, Returned),
                                      (Run crawler_options start_urls, Raised TargetClosedError)]\<rparr>)"
    using main_steps_in_sequence [where lib = "broken_library Running" and w = home_world
        and e = TargetClosedError and ?x1.0 = "()" and ?w1.0 = home_world and ?x2.0 = "()"
        and ?w2.0 = home_world and ?w3.0 = home_world]
    by (simp add: broken_ops break_def)
  moreover have "fst (main (broken_library Exporting) (start home_world)) = Inl TargetClosedError
      \<and> main_trace (broken_library Exporting) home_world =
        [(New_PlaywrightCrawler crawler_options, Returned),
         (Router_default_handler crawler_options, Returned),
         (Run crawler_options start_urls, Returned),
         (Export_data crawler_options results_file, Raised TargetClosedError)]"
    using main_steps_in_sequence [where lib = "broken_library Exporting" and w = home_world
        and e = TargetClosedError and ?x1.0 = "()" and ?w1.0 = home_world and ?x2.0 = "()"
        and ?w2.0 = home_world and ?x3.0 = "()"
        and ?w3.0 = "snd (run (broken_library Exporting) (registered_crawler (broken_library Exporting))
                       start_urls home_world)"
        and ?w4.0 = "snd (run (broken_library Exporting) (registered_crawler (broken_library Exporting))
                       start_urls home_world)"]
    by (simp add: main_trace_def broken_ops break_def)
  moreover have "fst (main (broken_library Reading) (start home_world)) = Inl TargetClosedError
      \<and> main_trace (broken_library Reading) home_world =
        [(New_PlaywrightCrawler crawler_options, Returned),
         (Router_default_handler crawler_options, Returned),
         (Run crawler_options start_urls, Returned),
         (Export_data crawler_options results_file, Returned),
         (Get_data crawler_options, Raised TargetClosedError)]"
    using main_steps_in_sequence [where lib = "broken_library Reading" and w = home_world
        and e = TargetClosedError and ?x1.0 = "()" and ?w1.0 = home_world and ?x2.0 = "()"
        and ?w2.0 = home_world and ?x3.0 = "()"
        and ?w3.0 = "snd (run (broken_library Reading) (registered_crawler (broken_library Reading))
                       start_urls home_world)"
        and ?x4.0 = "()"
        and ?w4.0 = "snd (export_data (broken_library Reading) (registered_crawler (broken_library Reading))
                       results_file
                       (snd (run (broken_library Reading) (registered_crawler (broken_library Reading))
                          start_urls home_world)))"
        and ?w5.0 = "snd (export_data (broken_library Reading) (registered_crawler (broken_library Reading))
                       results_file
                       (snd (run (broken_library Reading) (registered_crawler (broken_library Reading))
                          start_urls home_world)))"]
    by (simp add: main_trace_def broken_ops break_def)
  moreover have "main_trace model_library home_world =
        map (\<lambda>c. (c, Returned))
          (main_steps @
           [Crawler_log_info crawler_options
              (extracted \<lparr>items = dataset (world (snd (main model_library (start home_world))))\<rparr>)])"
    using main_steps_in_sequence [where lib = model_library and w = home_world
        and ?x1.0 = "()" and ?w1.0 = home_world and ?x2.0 = "()"
        and ?w2.0 = home_world and ?x3.0 = "()"
        and ?w3.0 = "snd (run model_library (registered_crawler model_library) start_urls home_world)"
        and ?x4.0 = "()"
        and ?w4.0 = "snd (export_data model_library (registered_crawler model_library) results_file
                       (snd (run model_library (registered_crawler model_library) start_urls home_world)))"
        and d = "\<lparr>items = dataset (snd (run model_library (registered_crawler model_library) start_urls home_world))\<rparr>"
        and ?w5.0 = "snd (export_data model_library (registered_crawler model_library) results_file
                       (snd (run model_library (registered_crawler model_library) start_urls home_world)))"]
    by (simp add: main_trace_def model_ops perform_def)
  ultimately show ?thesis using exported returns by simp
qed

text \<open>
  C3 as stated fails: when the run raises, \<^verbatim>\<open>main\<close> ends there; of the five steps it
  has executed three, and no file is written.
\<close>

theorem failed_run_three_steps:
  "calls (main_trace (broken_library Running) home_world) =
     [New_PlaywrightCrawler crawler_options, Router_default_handler crawler_options,
      Run crawler_options start_urls]
   \<and> fst (main (broken_library Running) (start home_world)) = Inl TargetClosedError
   \<and> files (world (snd (main (broken_library Running) (start home_world)))) results_file = None"
  by (simp add: main_unfold broken_ops break_def home_world_def)

text \<open>
  C4. An invocation of the handler submits at most one record, whatever the library
  does. In the model of the library, a crawl invokes the handler once for each page it
  crawls: after \<^verbatim>\<open>main\<close> the log has one line of the handler and the dataset one record
  for each page crawled, in the order of the crawl.
\<close>

theorem at_most_one_record_per_invocation:
  "length (submitted (handler_trace lib context w)) \<le> 1
   \<and> (\<exists>us. crawled (world (snd (main model_library (start w')))) = crawled w' @ us
        \<and> logged (world (snd (main model_library (start w'))))
            = logged w' @ map (\<lambda>u. [Text ''Processing '', Format_str u, Text '' ...'']) us
                @ [extracted \<lparr>items = dataset (world (snd (main model_library (start w'))))\<rparr>]
        \<and> map (\<lambda>d. map_of d ''url'') (dataset (world (snd (main model_library (start w')))))
            = map (\<lambda>d. map_of d ''url'') (dataset w') @ map Some us)"
proof -
  have one: "length (submitted (handler_trace lib context w)) \<le> 1"
    by (simp add: handler_unfold submitted_def split: prod.splits sum.splits)
  from crawl_invariant [OF invoke_model, of 5 "w'\<lparr>request_queue := start_urls\<rparr>"]
  obtain us where
    "crawled (crawl 5 (Some (on_world (request_handler model_library))) (w'\<lparr>request_queue := start_urls\<rparr>))
       = crawled w' @ us"
    "logged (crawl 5 (Some (on_world (request_handler model_library))) (w'\<lparr>request_queue := start_urls\<rparr>))
       = logged w' @ map (\<lambda>u. [Text ''Processing '', Format_str u, Text '' ...'']) us"
    "map (\<lambda>d. map_of d ''url'')
       (dataset (crawl 5 (Some (on_world (request_handler model_library))) (w'\<lparr>request_queue := start_urls\<rparr>)))
       = map (\<lambda>d. map_of d ''url'') (dataset w') @ map Some us"
    by auto
  then have "crawled (world (snd (main model_library (start w')))) = crawled w' @ us
        \<and> logged (world (snd (main model_library (start w'))))
            = logged w' @ map (\<lambda>u. [Text ''Processing '', Format_str u, Text '' ...'']) us
                @ [extracted \<lparr>items = dataset (world (snd (main model_library (start w'))))\<rparr>]
        \<and> map (\<lambda>d. map_of d ''url'') (dataset (world (snd (main model_library (start w')))))
            = map (\<lambda>d. map_of d ''url'') (dataset w') @ map Some us"
    by (simp add: main_model Let_def)
  with one show ?thesis by blast
qed






text \<open>
  C7. The configuration is passed once, in the constructor call; every later call of
  \<^verbatim>\<open>main\<close> is made on a crawler that has this configuration, and the handler makes no
  constructor call and no call on the crawler.
\<close>

theorem configuration_not_mutated:
  "concat (map constructs (calls (main_trace lib w))) = [crawler_options]
   \<and> map receiver (tl (calls (main_trace lib w)))
       = replicate (length (main_trace lib w) - 1) [crawler_options]
   \<and> concat (map constructs (calls (handler_trace lib context w'))) = []
   \<and> concat (map receiver (calls (handler_trace lib context w'))) = []"
proof -
  have "concat (map constructs (calls (main_trace lib w))) = [crawler_options]"
    by (simp add: main_unfold split: prod.splits sum.splits)
  moreover have "map receiver (tl (calls (main_trace lib w)))
       = replicate (length (main_trace lib w) - 1) [crawler_options]"
    by (simp add: main_unfold split: prod.splits sum.splits)
  moreover have "concat (map constructs (calls (handler_trace lib context w'))) = []"
    by (simp add: handler_unfold split: prod.splits sum.splits)
  moreover have "concat (map receiver (calls (handler_trace lib context w'))) = []"
    by (simp add: handler_unfold split: prod.splits sum.splits)
  ultimately show ?thesis by simp
qed








end
